theory Spec2Isabelle
  imports Main "HOL-Library.Word"
begin

unbundle bit_operations_syntax

section \<open>Data model (allocator.h)\<close>

text \<open>
  Pointers and \<open>size_t\<close> values are 64-bit words; every operation on them wraps
  around as the C arithmetic does. The null pointer is the address 0, and
  \<open>MAP_FAILED\<close> is \<open>(void *) -1\<close>.
\<close>

type_synonym addr = "64 word"
type_synonym size_t = "64 word"

abbreviation NULL :: addr where
  "NULL \<equiv> 0"

abbreviation MAP_FAILED :: addr where
  "MAP_FAILED \<equiv> - 1"

text \<open>\<open>#define ALIGNMENT 16\<close>\<close>

abbreviation ALIGNMENT :: size_t where
  "ALIGNMENT \<equiv> 16"

text \<open>
  \<open>sizeof(struct mem_block)\<close>: the struct is packed, so its size is
  8 (region) + 32 (name) + 8 (size) + 8 (next_block) + 8 (prev_block) = 64 bytes.
  Pointer arithmetic \<open>block + 1\<close> and \<open>(struct mem_block *) ptr - 1\<close> moves by it.
\<close>

abbreviation sizeof_mem_block :: size_t where
  "sizeof_mem_block \<equiv> 64"

text \<open>
  \<open>struct mem_block\<close>. The field \<open>size\<close> of the source is \<open>size_fld\<close> here.
  \<open>name\<close> is the C string stored in the 32-byte array (without its terminating
  NUL), of 31 characters at most; a longer label is not stored there
  (\<open>strcpy_name\<close> below).
\<close>

record mem_block =
  region :: addr
  name :: string
  size_fld :: size_t
  next_block :: addr
  prev_block :: addr

text \<open>
  \<open>struct free_block\<close>: a \<open>mem_block\<close> followed by the two free-list links. The
  source reaches it by casting a \<open>struct mem_block *\<close>, so the same address is
  viewed under both types; the model keeps one \<open>free_block\<close> per address, and
  \<open>fblock->block.size\<close> is \<open>size_fld\<close> of that record.
\<close>

record free_block = mem_block +
  next_free :: addr
  prev_free :: addr

definition zero_block :: free_block where
  "zero_block = \<lparr>region = 0, name = [], size_fld = 0, next_block = 0, prev_block = 0,
                 next_free = 0, prev_free = 0\<rparr>"

text \<open>\<open>sysconf(_SC_PAGESIZE)\<close> of the target, Linux on x86-64.\<close>

abbreviation PAGE_SIZE :: size_t where
  "PAGE_SIZE \<equiv> 4096"

text \<open>
  Calls that leave the allocator (the operating system's \<open>mmap\<close>, and the C
  library's \<open>malloc\<close> and \<open>free\<close> that \<open>realloc_impl\<close> calls) are recorded in
  the order they happen.
\<close>

datatype event = Mmap size_t | Libc_malloc size_t | Libc_free addr

text \<open>
  The global state of allocator.c: the four list heads, and the memory they point
  into. Memory is a store of block headers indexed by address (\<open>mem\<close>) together
  with a store of bytes (\<open>bytes\<close>) that \<open>memset\<close> and \<open>memcpy\<close> write. Headers at
  different addresses are different objects of the store, and \<open>p->field\<close> reads or
  writes the header at \<open>p\<close> whatever \<open>p\<close> is. The two links of a \<open>free_block\<close> lie in
  the first 16 bytes of the payload and are kept with the header; a write to the
  bytes of a payload is carried over to them (\<open>write_range\<close> below).

  \<open>mappings\<close> are the live mappings obtained from \<open>mmap\<close>, each with its base and
  its length in whole pages; \<open>libc_objects\<close> are the live blocks of the C library's
  \<open>malloc\<close>, each with its base and its size. Bytes are written and copied only
  inside one of them.
\<close>

record heap_state =
  mem :: "addr \<Rightarrow> free_block"
  bytes :: "addr \<Rightarrow> 8 word"
  blist_head :: addr
  blist_tail :: addr
  free_head :: addr
  free_tail :: addr
  mappings :: "(addr \<times> size_t) list"
  libc_objects :: "(addr \<times> size_t) list"
  events :: "event list"

text \<open>
  What the surroundings answer during one call: the address \<open>mmap\<close> returns
  (\<open>MAP_FAILED\<close> when it fails), whether \<open>getenv("ALLOCATOR_SCRIBBLE")\<close> is
  non-null, and the pointer the C library's \<open>malloc\<close> returns.
\<close>

record env =
  mmap_ret :: addr
  scribble :: bool
  libc_malloc_ret :: addr

text \<open>
  The ways a call ends without a result. \<open>Segfault\<close>: a write or a read through
  the null pointer. \<open>Out_of_bounds\<close>: a write or a read that leaves the array,
  mapping or library block it starts in; C leaves the behaviour undefined (the
  process is killed, or neighbouring memory is overwritten). \<open>Invalid_free\<close>: the C
  library's \<open>free\<close> on a pointer that its \<open>malloc\<close> did not return; undefined
  in C, an abort under glibc. Nothing is said about the state after any of them.
\<close>

datatype fault = Segfault | Out_of_bounds | Invalid_free

section \<open>Helpers of the store\<close>

text \<open>\<open>p->field = ...\<close>: the header at \<open>p\<close> is replaced by \<open>f\<close> of it.\<close>

definition upd_block :: "addr \<Rightarrow> (free_block \<Rightarrow> free_block) \<Rightarrow> heap_state \<Rightarrow> heap_state" where
  "upd_block p f s = s\<lparr>mem := (mem s)(p := f (mem s p))\<rparr>"

section \<open>allocator.c: sizes and flags\<close>

text \<open>
  \<open>align\<close>, lines 39-46. The division traps in C when \<open>alignment\<close> is 0; the
  allocator only ever passes \<open>ALIGNMENT\<close>.
\<close>

definition align :: "size_t \<Rightarrow> size_t \<Rightarrow> size_t" where
  "align orig_size alignment =
     (let new_size = (orig_size div alignment) * alignment
      in if orig_size mod alignment \<noteq> 0 then new_size + alignment else new_size)"

text \<open>\<open>set_free\<close>, \<open>set_used\<close>, \<open>real_size\<close>, \<open>is_free\<close>, lines 48-66.\<close>

definition set_free :: "addr \<Rightarrow> heap_state \<Rightarrow> heap_state" where
  "set_free block s = upd_block block (size_fld_update (\<lambda>v. v OR 1)) s"

definition set_used :: "addr \<Rightarrow> heap_state \<Rightarrow> heap_state" where
  "set_used block s = upd_block block (size_fld_update (\<lambda>v. v AND NOT 1)) s"

definition real_size :: "size_t \<Rightarrow> size_t" where
  "real_size sz = sz AND NOT 1"

definition is_free :: "addr \<Rightarrow> heap_state \<Rightarrow> bool" where
  "is_free block s = (size_fld (mem s block) AND 1 = 1)"

section \<open>The surroundings: bytes, mappings and the C library\<close>

text \<open>The \<open>n\<close> bytes from \<open>p\<close> on lie inside one of the objects \<open>objs\<close>.\<close>

definition within :: "(addr \<times> size_t) list \<Rightarrow> addr \<Rightarrow> size_t \<Rightarrow> bool" where
  "within objs p n = list_ex (\<lambda>(r, l). unat (p - r) + unat n \<le> unat l) objs"

text \<open>The 64-bit value that the eight bytes \<open>g p\<close>, ..., \<open>g (p + 7)\<close> encode (little-endian).\<close>

definition le64 :: "(addr \<Rightarrow> 8 word) \<Rightarrow> addr \<Rightarrow> 64 word" where
  "le64 g p =
     ucast (g p) OR push_bit 8 (ucast (g (p + 1))) OR push_bit 16 (ucast (g (p + 2))) OR
     push_bit 24 (ucast (g (p + 3))) OR push_bit 32 (ucast (g (p + 4))) OR
     push_bit 40 (ucast (g (p + 5))) OR push_bit 48 (ucast (g (p + 6))) OR
     push_bit 56 (ucast (g (p + 7)))"

text \<open>\<open>old\<close> with its \<open>k\<close> bytes of lowest address replaced by those of \<open>new\<close>.\<close>

definition splice :: "64 word \<Rightarrow> 64 word \<Rightarrow> nat \<Rightarrow> 64 word" where
  "splice old new k = (old AND NOT (mask (8 * k))) OR (new AND mask (8 * k))"

text \<open>
  Writing the bytes \<open>g a\<close> to the \<open>n\<close> addresses \<open>a\<close> from \<open>p\<close> on. Nothing happens
  for \<open>n = 0\<close>. Through the null pointer the write is a \<open>Segfault\<close>. Inside a block
  of the C library only bytes change. Inside a mapping, \<open>p\<close> is the start of the
  payload of the block at \<open>p - 64\<close> (both calls of the source pass \<open>block + 1\<close>),
  and the first 16 bytes written are that block's \<open>next_free\<close> and \<open>prev_free\<close>.
  Any other write leaves its object.
\<close>

definition write_range ::
  "addr \<Rightarrow> size_t \<Rightarrow> (addr \<Rightarrow> 8 word) \<Rightarrow> heap_state \<Rightarrow> fault + heap_state" where
  "write_range p n g s =
     (let s1 = s\<lparr>bytes := (\<lambda>a. if a - p < n then g a else bytes s a)\<rparr>
      in if n = 0 then Inr s
         else if p = NULL then Inl Segfault
         else if within (libc_objects s) p n then Inr s1
         else if within (mappings s) p n
         then Inr (upd_block (p - sizeof_mem_block)
                     (\<lambda>h. h\<lparr>next_free := splice (next_free h) (le64 g p) (min 8 (unat n)),
                            prev_free := splice (prev_free h) (le64 g (p + 8))
                                           (min 8 (unat n - 8))\<rparr>)
                     s1)
         else Inl Out_of_bounds)"

text \<open>\<open>memset(p, c, n)\<close>.\<close>

definition memset :: "addr \<Rightarrow> 8 word \<Rightarrow> size_t \<Rightarrow> heap_state \<Rightarrow> fault + heap_state" where
  "memset p c n s = write_range p n (\<lambda>_. c) s"

text \<open>\<open>memcpy(dst, src, n)\<close>: the \<open>n\<close> bytes read must lie inside one object too.\<close>

definition memcpy :: "addr \<Rightarrow> addr \<Rightarrow> size_t \<Rightarrow> heap_state \<Rightarrow> fault + heap_state" where
  "memcpy dst src n s =
     (if n = 0 then Inr s
      else if src = NULL then Inl Segfault
      else if within (libc_objects s) src n \<or> within (mappings s) src n
      then write_range dst n (\<lambda>a. bytes s (src + (a - dst))) s
      else Inl Out_of_bounds)"

text \<open>
  \<open>strcpy(block->name, name)\<close>. The argument stands for the bytes at \<open>name\<close>, of
  which \<open>strcpy\<close> copies those before the first NUL, and a NUL. \<open>block->name\<close> is an
  array of 32 bytes: a string of 32 characters or more is written past its end,
  into \<open>size\<close> and the links.
\<close>

definition c_str :: "string \<Rightarrow> string" where
  "c_str nm = takeWhile (\<lambda>c. c \<noteq> CHR 0x00) nm"

definition strcpy_name :: "addr \<Rightarrow> string \<Rightarrow> heap_state \<Rightarrow> fault + heap_state" where
  "strcpy_name block nm s =
     (if length (c_str nm) < 32 then Inr (upd_block block (name_update (\<lambda>_. c_str nm)) s)
      else Inl Out_of_bounds)"

text \<open>
  \<open>mmap(NULL, len, PROT_READ | PROT_WRITE, MAP_PRIVATE | MAP_ANONYMOUS, -1, 0)\<close>:
  the call is recorded; when it succeeds, the mapping is \<open>len\<close> rounded up to whole
  pages, fresh and zero-filled. The operating system refuses a length of 0
  (\<open>EINVAL\<close>) and a length whose rounding does not fit \<open>size_t\<close> (\<open>ENOMEM\<close>),
  whatever the surroundings would answer.
\<close>

definition zero_fill :: "addr \<Rightarrow> size_t \<Rightarrow> heap_state \<Rightarrow> heap_state" where
  "zero_fill r len s =
     s\<lparr>mem := (\<lambda>a. if a - r < len then zero_block else mem s a),
       bytes := (\<lambda>a. if a - r < len then 0 else bytes s a)\<rparr>"

definition mmap :: "env \<Rightarrow> size_t \<Rightarrow> heap_state \<Rightarrow> addr \<times> heap_state" where
  "mmap e len s =
     (let maplen = align len PAGE_SIZE;
          r = (if len = 0 \<or> maplen = 0 then MAP_FAILED else mmap_ret e);
          s1 = s\<lparr>events := events s @ [Mmap len]\<rparr>
      in if r = MAP_FAILED then (r, s1)
         else (r, zero_fill r maplen (s1\<lparr>mappings := (r, maplen) # mappings s1\<rparr>)))"

text \<open>
  \<open>malloc\<close> and \<open>free\<close> in the body of \<open>realloc_impl\<close> are those of \<open><stdlib.h>\<close>,
  which allocator.c includes: the C library's. \<open>malloc\<close> answers what the
  surroundings say, and a pointer other than null is a new block of the library
  of \<open>sz\<close> bytes. \<open>free\<close> of the null pointer does nothing; \<open>free\<close> of the base of a
  live block of the library ends that block; \<open>free\<close> of any other pointer, such
  as one into a mapping of the allocator, is an \<open>Invalid_free\<close>.
\<close>

definition libc_malloc :: "env \<Rightarrow> size_t \<Rightarrow> heap_state \<Rightarrow> addr \<times> heap_state" where
  "libc_malloc e sz s =
     (let r = libc_malloc_ret e;
          s1 = s\<lparr>events := events s @ [Libc_malloc sz]\<rparr>
      in if r = NULL then (r, s1)
         else (r, s1\<lparr>libc_objects := (r, sz) # libc_objects s1\<rparr>))"

definition libc_free :: "addr \<Rightarrow> heap_state \<Rightarrow> fault + heap_state" where
  "libc_free p s =
     (let s1 = s\<lparr>events := events s @ [Libc_free p]\<rparr>
      in if p = NULL then Inr s1
         else if list_ex (\<lambda>(b, l). b = p) (libc_objects s)
         then Inr (s1\<lparr>libc_objects := filter (\<lambda>(b, l). b \<noteq> p) (libc_objects s)\<rparr>)
         else Inl Invalid_free)"

section \<open>allocator.c: lists and blocks\<close>

text \<open>\<open>add_free\<close>, lines 68-81.\<close>

definition add_free :: "addr \<Rightarrow> heap_state \<Rightarrow> heap_state" where
  "add_free block s =
     (let s1 = set_free block s;
          fblock = block
      in if free_head s1 = NULL \<and> free_tail s1 = NULL
         then s1\<lparr>free_head := fblock, free_tail := fblock\<rparr>
         else
           (let s2 = upd_block fblock (next_free_update (\<lambda>_. free_head s1)) s1;
                s3 = upd_block (free_head s2) (prev_free_update (\<lambda>_. fblock)) s2
            in s3\<lparr>free_head := fblock\<rparr>))"

text \<open>
  \<open>split_block\<close>, lines 105-170. The result is the returned pointer and the state.
  The assignment \<open>new_block->region = block->region\<close> of line 169 stands after
  the \<open>if\<close>/\<open>else\<close> whose two branches both return, so no path executes it.
\<close>

definition split_block :: "addr \<Rightarrow> size_t \<Rightarrow> heap_state \<Rightarrow> addr \<times> heap_state" where
  "split_block block sz s =
     (let min_size = 80
      in if block = NULL \<or> sz < min_size then (NULL, s)
         else
           (let block_size = real_size (size_fld (mem s block));
                new_block = block + block_size - sz
            in if block_size < min_size then (NULL, s)
               else if \<not> is_free block s then (NULL, s)
               else if next_block (mem s block) = NULL then (NULL, s)
               else
                 (let s1 = upd_block new_block (next_block_update (\<lambda>_. next_block (mem s block))) s;
                      s2 = upd_block block (next_block_update (\<lambda>_. new_block)) s1;
                      s3 = upd_block new_block (prev_block_update (\<lambda>_. block)) s2;
                      s4 = upd_block (next_block (mem s3 new_block))
                             (prev_block_update (\<lambda>_. new_block)) s3;
                      new_size = size_fld (mem s4 block) - sz;
                      s5 = upd_block block (size_fld_update (\<lambda>_. new_size)) s4;
                      s6 = upd_block new_block (size_fld_update (\<lambda>_. block_size)) s5;
                      new_block_new_size = size_fld (mem s6 new_block) - new_size;
                      s7 = upd_block new_block (size_fld_update (\<lambda>_. new_block_new_size + 2)) s6
                  in (new_block, s7))))"

text \<open>\<open>merge_block\<close>, lines 200-236: the body is \<open>return NULL\<close>.\<close>

definition merge_block :: "addr \<Rightarrow> heap_state \<Rightarrow> addr \<times> heap_state" where
  "merge_block block s = (NULL, s)"



text \<open>\<open>worst_fit\<close>, \<open>best_fit\<close> and \<open>reuse\<close>, lines 267-320: each returns \<open>NULL\<close>.\<close>

definition worst_fit :: "size_t \<Rightarrow> heap_state \<Rightarrow> addr" where
  "worst_fit sz s = NULL"

definition best_fit :: "size_t \<Rightarrow> heap_state \<Rightarrow> addr" where
  "best_fit sz s = NULL"

definition reuse :: "size_t \<Rightarrow> heap_state \<Rightarrow> addr" where
  "reuse sz s = NULL"

text \<open>
  \<open>malloc_impl\<close>, lines 322-378. The mutex and \<open>perror\<close> have no effect on the
  state modelled here. The result is a fault where \<open>strcpy\<close> (line 355) or the
  scribbling \<open>memset\<close> (line 373) leaves its object, and the returned pointer with
  the state otherwise. The scribble starts at \<open>block + 1\<close> and is \<open>actual_size\<close>
  bytes long, 64 more than the payload: it stays inside the mapping only where the
  rounding to whole pages has left that much room.
\<close>

definition malloc_impl ::
  "env \<Rightarrow> size_t \<Rightarrow> string \<Rightarrow> heap_state \<Rightarrow> fault + (addr \<times> heap_state)" where
  "malloc_impl e sz nm s =
     (let actual_size = sz + sizeof_mem_block;
          aligned_size = align actual_size ALIGNMENT;
          reused_block = reuse aligned_size s
      in if reused_block \<noteq> NULL
         then Inr (reused_block + sizeof_mem_block, set_used reused_block s)
         else
           (let (block, s1) = mmap e actual_size s
            in if block = MAP_FAILED then Inr (NULL, s1)
               else
                 (case strcpy_name block nm s1 of
                    Inl f \<Rightarrow> Inl f
                  | Inr s2 \<Rightarrow>
                     (let s3 = upd_block block (region_update (\<lambda>_. block)) s2;
                          s4 = set_free block s3;
                          (ignored, s5) =
                             split_block block
                               (real_size (size_fld (mem s4 block)) - aligned_size) s4;
                          s6 = set_used block s5;
                          s7 = upd_block block (size_fld_update (\<lambda>_. actual_size)) s6
                      in if scribble e
                         then (case memset (block + sizeof_mem_block) 0xAA actual_size s7 of
                                 Inl f \<Rightarrow> Inl f
                               | Inr s8 \<Rightarrow> Inr (block + sizeof_mem_block, s8))
                         else Inr (block + sizeof_mem_block, s7)))))"

text \<open>\<open>free_impl\<close>, lines 380-408.\<close>

definition free_impl :: "addr \<Rightarrow> heap_state \<Rightarrow> heap_state" where
  "free_impl ptr s =
     (if ptr = NULL then s
      else (let block = ptr - sizeof_mem_block in add_free block s))"

text \<open>
  \<open>calloc_impl\<close>, lines 410-418. The result of \<open>malloc_impl\<close> is not tested: when
  it is \<open>NULL\<close>, \<open>memset\<close> writes through the null pointer, and when the mapping is
  shorter than the \<open>nmemb * size\<close> bytes, past its end.
\<close>

definition calloc_impl ::
  "env \<Rightarrow> size_t \<Rightarrow> size_t \<Rightarrow> string \<Rightarrow> heap_state \<Rightarrow> fault + (addr \<times> heap_state)" where
  "calloc_impl e nmemb sz nm s =
     (case malloc_impl e (nmemb * sz) nm s of
        Inl f \<Rightarrow> Inl f
      | Inr (ptr, s1) \<Rightarrow>
         (case memset ptr 0 (nmemb * sz) s1 of
            Inl f \<Rightarrow> Inl f
          | Inr s2 \<Rightarrow> Inr (ptr, s2)))"

text \<open>
  \<open>realloc_impl\<close>, lines 420-459. \<open>malloc\<close> and \<open>free\<close> in its body are the C
  library's, not \<open>malloc_impl\<close> and \<open>free_impl\<close>.
\<close>

definition realloc_impl ::
  "env \<Rightarrow> addr \<Rightarrow> size_t \<Rightarrow> string \<Rightarrow> heap_state \<Rightarrow> fault + (addr \<times> heap_state)" where
  "realloc_impl e ptr sz nm s =
     (let (new_ptr, s1) = libc_malloc e sz s
      in if new_ptr = NULL then malloc_impl e sz nm s1
         else if ptr = NULL then Inr (new_ptr, s1)
         else if sz = 0
         then (case libc_free new_ptr s1 of
                 Inl f \<Rightarrow> Inl f
               | Inr s2 \<Rightarrow> Inr (NULL, s2))
         else (case memcpy new_ptr ptr sz s1 of
                 Inl f \<Rightarrow> Inl f
               | Inr s2 \<Rightarrow>
                  (case libc_free ptr s2 of
                     Inl f \<Rightarrow> Inl f
                   | Inr s3 \<Rightarrow> Inr (new_ptr, s3))))"

text \<open>\<open>leak_check\<close>, lines 513-516: the body is \<open>return true\<close>.\<close>

definition leak_check :: "heap_state \<Rightarrow> bool" where
  "leak_check s = True"

section \<open>Notions used in the statements\<close>

text \<open>
  The Free List as a list of addresses: starting from \<open>p\<close>, the \<open>next_free\<close> links
  visit exactly the non-null addresses \<open>bs\<close>, in this order, and then reach \<open>NULL\<close>.
\<close>

fun free_list :: "heap_state \<Rightarrow> addr \<Rightarrow> addr list \<Rightarrow> bool" where
  "free_list s p [] = (p = NULL)"
| "free_list s p (b # bs) = (p = b \<and> b \<noteq> NULL \<and> free_list s (next_free (mem s b)) bs)"

text \<open>The block at \<open>b\<close> is large enough for a request of \<open>sz\<close> bytes.\<close>

definition fits :: "size_t \<Rightarrow> heap_state \<Rightarrow> addr \<Rightarrow> bool" where
  "fits sz s b = (sz \<le> real_size (size_fld (mem s b)))"

text \<open>
  The state \<open>malloc_impl\<close> has built on the path through \<open>mmap\<close> when it reaches the
  scribble: the fresh pages, and in them the header at their base with the label,
  the region and the size written.
\<close>

definition mapped_block :: "env \<Rightarrow> size_t \<Rightarrow> string \<Rightarrow> heap_state \<Rightarrow> heap_state" where
  "mapped_block e sz nm s =
     upd_block (mmap_ret e) (size_fld_update (\<lambda>_. sz + sizeof_mem_block))
       (set_used (mmap_ret e)
         (set_free (mmap_ret e)
           (upd_block (mmap_ret e) (region_update (\<lambda>_. mmap_ret e))
             (upd_block (mmap_ret e) (name_update (\<lambda>_. c_str nm))
               (zero_fill (mmap_ret e) (align (sz + sizeof_mem_block) PAGE_SIZE)
                 (s\<lparr>events := events s @ [Mmap (sz + sizeof_mem_block)],
                    mappings := (mmap_ret e, align (sz + sizeof_mem_block) PAGE_SIZE) #
                                mappings s\<rparr>))))))"

text \<open>\<open>p\<close> is the base of a live block of the C library of at least \<open>n\<close> bytes.\<close>

definition lives :: "addr \<Rightarrow> size_t \<Rightarrow> heap_state \<Rightarrow> bool" where
  "lives p n s = list_ex (\<lambda>(b, l). b = p \<and> unat n \<le> unat l) (libc_objects s)"

text \<open>
  With the scribble on, the payload pointer is not null and the \<open>sz + 64\<close> bytes
  scribbled from it on end inside the pages mapped for a request of \<open>sz\<close> bytes.
\<close>

definition scribble_fits :: "env \<Rightarrow> size_t \<Rightarrow> bool" where
  "scribble_fits e sz =
     (if scribble e
      then mmap_ret e + sizeof_mem_block \<noteq> NULL \<and>
           unat (sz + sizeof_mem_block) + 64 \<le> unat (align (sz + sizeof_mem_block) PAGE_SIZE)
      else True)"

section \<open>Concrete heaps used below\<close>

text \<open>The state before the first call: no block, both lists empty, all memory zero.\<close>

definition heap_init :: heap_state where
  "heap_init = \<lparr>mem = (\<lambda>_. zero_block), bytes = (\<lambda>_. 0), blist_head = NULL,
                 blist_tail = NULL, free_head = NULL, free_tail = NULL, mappings = [],
                 libc_objects = [], events = []\<rparr>"

text \<open>Surroundings in which \<open>mmap\<close> and the C library's \<open>malloc\<close> both succeed.\<close>

definition env_ok :: env where
  "env_ok = \<lparr>mmap_ret = 0x7F0000000000, scribble = False, libc_malloc_ret = 0x555500000010\<rparr>"

text \<open>Surroundings in which the C library's \<open>malloc\<close> returns \<open>NULL\<close> and \<open>mmap\<close> succeeds.\<close>

definition env_libc_fails :: env where
  "env_libc_fails = \<lparr>mmap_ret = 0x7F0000100000, scribble = False, libc_malloc_ret = NULL\<rparr>"

text \<open>Surroundings in which \<open>mmap\<close> succeeds and the debug scribble is on.\<close>

definition env_scribble :: env where
  "env_scribble = \<lparr>mmap_ret = 0x7F0000200000, scribble = True, libc_malloc_ret = 0x555500000010\<rparr>"

text \<open>Surroundings in which the C library's \<open>malloc\<close> returns a second block.\<close>

definition env_second :: env where
  "env_second = \<lparr>mmap_ret = 0x7F0000300000, scribble = False, libc_malloc_ret = 0x555500000100\<rparr>"

text \<open>
  \<open>malloc_impl(300, "bob")\<close> on the initial state: the pointer it returns, the state
  it leaves, and that state after \<open>free_impl\<close> of the pointer.
\<close>

definition ptr_allocated :: addr where
  "ptr_allocated = fst (projr (malloc_impl env_ok 300 ''bob'' heap_init))"

definition heap_allocated :: heap_state where
  "heap_allocated = snd (projr (malloc_impl env_ok 300 ''bob'' heap_init))"

definition heap_released :: heap_state where
  "heap_released = free_impl ptr_allocated heap_allocated"

text \<open>
  \<open>realloc_impl(NULL, 100, "new")\<close> on \<open>heap_allocated\<close>: the pointer it returns, a
  block of the C library, and the state it leaves.
\<close>

definition ptr_library :: addr where
  "ptr_library = fst (projr (realloc_impl env_ok NULL 100 ''new'' heap_allocated))"

definition heap_library :: heap_state where
  "heap_library = snd (projr (realloc_impl env_ok NULL 100 ''new'' heap_allocated))"

text \<open>
  A free block of 8000 bytes at \<open>0x10000\<close> whose chain successor is a used block at
  \<open>0x20000\<close>: the kind of hand-built block \<open>split_block\<close> is called on.
\<close>

definition heap_split :: heap_state where
  "heap_split = heap_init
     \<lparr>mem := (\<lambda>_. zero_block)
        (0x10000 := zero_block\<lparr>region := 0x10000, name := ''Test Block'', size_fld := 8001,
                               next_block := 0x20000\<rparr>,
         0x20000 := zero_block\<lparr>region := 0x20000, name := ''Next'', size_fld := 4096,
                               prev_block := 0x10000\<rparr>),
      blist_head := 0x10000, blist_tail := 0x20000\<rparr>"

text \<open>
  Two free blocks of one region, neighbours in the chain: \<open>b1\<close> of 160 bytes at
  \<open>0x10000\<close> and \<open>b2\<close> of 96 bytes right behind it at \<open>0x100A0\<close>; the Free List is
  \<open>b2, b1\<close>.
\<close>

definition heap_two_free :: heap_state where
  "heap_two_free = heap_init
     \<lparr>mem := (\<lambda>_. zero_block)
        (0x10000 := zero_block\<lparr>region := 0x10000, name := ''b1'', size_fld := 161,
                               next_block := 0x100A0, prev_free := 0x100A0\<rparr>,
         0x100A0 := zero_block\<lparr>region := 0x10000, name := ''b2'', size_fld := 97,
                               prev_block := 0x10000, next_free := 0x10000\<rparr>),
      blist_head := 0x10000, blist_tail := 0x100A0,
      free_head := 0x100A0, free_tail := 0x10000\<rparr>"

text \<open>A Free List of three blocks of 96, 160 and 320 bytes, each a region of its own.\<close>

definition heap_three_free :: heap_state where
  "heap_three_free = heap_init
     \<lparr>mem := (\<lambda>_. zero_block)
        (0x1000 := zero_block\<lparr>region := 0x1000, size_fld := 97, next_free := 0x2000\<rparr>,
         0x2000 := zero_block\<lparr>region := 0x2000, size_fld := 161, next_free := 0x3000,
                              prev_free := 0x1000\<rparr>,
         0x3000 := zero_block\<lparr>region := 0x3000, size_fld := 321, prev_free := 0x2000\<rparr>),
      free_head := 0x1000, free_tail := 0x3000\<rparr>"

text \<open>The defining equations that evaluate a call on a concrete heap.\<close>

lemmas run_defs = malloc_impl_def mmap_def zero_fill_def reuse_def align_def set_free_def
  set_used_def upd_block_def split_block_def real_size_def is_free_def heap_init_def env_ok_def
  zero_block_def Let_def free_impl_def add_free_def memset_def ptr_allocated_def
  heap_allocated_def heap_released_def realloc_impl_def libc_malloc_def libc_free_def memcpy_def
  calloc_impl_def env_libc_fails_def merge_block_def leak_check_def heap_two_free_def
  heap_split_def heap_three_free_def fits_def write_range_def within_def le64_def splice_def
  strcpy_name_def c_str_def mask_eq_exp_minus_1 env_scribble_def env_second_def
  ptr_library_def heap_library_def lives_def scribble_fits_def

section \<open>Alignment\<close>

lemma unat_div_mult:
  fixes n a :: size_t
  shows "unat ((n div a) * a) = (unat n div unat a) * unat a"
proof -
  have "unat (n div a) * unat a \<le> unat n"
    by (simp add: unat_div)
  also have "unat n < 2 ^ LENGTH(64)"
    by (rule unsigned_less)
  finally have "unat ((n div a) * a) = unat (n div a) * unat a"
    by (simp only: unat_mult_lem)
  then show ?thesis
    by (simp add: unat_div)
qed

text \<open>The value of \<open>align\<close> read as a natural number: the only wrap-around is in the final addition.\<close>

lemma unat_align:
  fixes n a :: size_t
  shows "unat (align n a) =
     (if unat n mod unat a \<noteq> 0
      then ((unat n div unat a) * unat a + unat a) mod 2 ^ 64
      else (unat n div unat a) * unat a)"
proof -
  have m: "(n mod a \<noteq> 0) = (unat n mod unat a \<noteq> 0)"
    by (metis unat_mod unat_eq_zero)
  have p: "unat ((n div a) * a + a) = ((unat n div unat a) * unat a + unat a) mod 2 ^ 64"
    by (simp only: unat_word_ariths(1) unat_div_mult) simp
  show ?thesis
    unfolding align_def Let_def m
    by (simp only: p unat_div_mult if_distrib [of unat])
qed

lemma align16_mod: "align n 16 mod 16 = 0"
proof -
  have d: "(16::nat) dvd 18446744073709551616" by simp
  have "unat (align n 16) mod 16 = 0"
    unfolding unat_align
    by (simp add: mod_mod_cancel [OF d])
  then show ?thesis
    by (simp add: word_arith_nat_mod unat_mod)
qed

lemma align16_exact: "align (k * 16) 16 = k * 16"
proof -
  have d: "(16::nat) dvd 18446744073709551616" by simp
  have "unat (k * 16) = (unat k * 16) mod 2 ^ 64"
    by (simp add: unat_word_ariths)
  then have z: "unat (k * 16) mod 16 = 0"
    by (simp add: mod_mod_cancel [OF d])
  then have "unat (align (k * 16) 16) = unat (k * 16)"
    unfolding unat_align by (simp add: mod_0_imp_dvd)
  then show ?thesis
    by (simp only: word_unat_eq_iff)
qed

lemma align_least:
  fixes n a :: size_t
  assumes a: "a \<noteq> 0" and m: "unat a dvd m" "unat n \<le> m" "m < 2 ^ 64"
  shows "unat a dvd unat (align n a) \<and> unat n \<le> unat (align n a) \<and>
    (\<forall>j. unat a dvd j \<and> unat n \<le> j \<longrightarrow> unat (align n a) \<le> j)"
proof -
  let ?A = "unat a" and ?N = "unat n"
  have pos: "0 < ?A" using a by (simp add: unat_gt_0)
  show ?thesis
  proof (cases "?N mod ?A = 0")
    case True
    then have "unat (align n a) = ?N"
      unfolding unat_align by (simp add: mod_0_imp_dvd)
    with True show ?thesis by auto
  next
    case False
    let ?C = "(?N div ?A) * ?A + ?A"
    have least: "?C \<le> j" if j: "?A dvd j" "?N \<le> j" for j
    proof -
      from j obtain q where q: "j = ?A * q" by (auto simp: dvd_def)
      have "?N \<noteq> j" using False j by auto
      with j have "?N < ?A * q" using q by simp
      then have "?N div ?A < q"
        using pos by (simp add: div_less_iff_less_mult mult.commute)
      then have "Suc (?N div ?A) \<le> q" by simp
      then have "Suc (?N div ?A) * ?A \<le> q * ?A" by (rule mult_le_mono1)
      then show ?thesis using q by (simp add: mult.commute)
    qed
    from least [OF m(1,2)] m(3) have "?C < 2 ^ 64" by simp
    then have eq: "unat (align n a) = ?C"
      unfolding unat_align using False by simp
    have "?A dvd ?C" by simp
    moreover have "?N \<le> ?C"
      using pos mod_less_divisor [OF pos, of ?N] div_mult_mod_eq [of ?N ?A] by linarith
    ultimately show ?thesis using least eq by auto
  qed
qed

text \<open>Rounding to whole pages, where the rounded length fits \<open>size_t\<close>.\<close>

lemma align_page:
  fixes x :: size_t
  assumes "unat x + 4096 \<le> 2 ^ 64"
  shows "unat x \<le> unat (align x PAGE_SIZE)"
proof -
  let ?m = "(unat x + 4095) div 4096 * 4096"
  have a: "(PAGE_SIZE :: size_t) \<noteq> 0" by simp
  have d: "unat (PAGE_SIZE :: size_t) dvd ?m" by simp
  have g: "unat x \<le> ?m"
    using div_mult_mod_eq [of "unat x + 4095" 4096] mod_less_divisor [of 4096 "unat x + 4095"]
    by linarith
  have "?m \<le> unat x + 4095" by simp
  then have l: "?m < 2 ^ 64" using assms by linarith
  from align_least [OF a d g l] show ?thesis by simp
qed


lemma align_page_nonzero:
  fixes x :: size_t
  assumes "unat x + 4096 \<le> 2 ^ 64" and "x \<noteq> 0"
  shows "align x PAGE_SIZE \<noteq> 0"
proof -
  have "0 < unat x" using assms(2) by (simp add: unat_gt_0)
  with align_page [OF assms(1)] have "unat (align x PAGE_SIZE) \<noteq> 0" by simp
  then show ?thesis by (simp add: unat_eq_zero)
qed

lemma align_zero: "align 0 a = 0"
  by (simp add: align_def)

text \<open>
  C5, as stated, fails: \<open>align\<close> computes in \<open>size_t\<close>, and for the largest
  \<open>size_t\<close> value the addition of the alignment wraps around to 0, which is below
  the argument.
\<close>

theorem align_wraps_counterexample:
  "align 0xFFFFFFFFFFFFFFFF 16 = 0 \<and> \<not> (0xFFFFFFFFFFFFFFFF :: size_t) \<le> align 0xFFFFFFFFFFFFFFFF 16"
  by (simp add: align_def)

text \<open>
  C5, amended: for a positive alignment \<open>a\<close> and every \<open>n\<close> for which some multiple
  of \<open>a\<close> that is at least \<open>n\<close> fits \<open>size_t\<close> (\<open>m\<close> below), \<open>align n a\<close> is a multiple
  of \<open>a\<close>, is at least \<open>n\<close>, and is below every other multiple of \<open>a\<close> that is at
  least \<open>n\<close>. For every \<open>n'\<close>, \<open>align n' 16\<close> is a multiple of 16, and for every \<open>k\<close>
  the multiple \<open>k * 16\<close> (computed in \<open>size_t\<close>) is returned unchanged.
\<close>

theorem align_smallest_multiple:
  fixes n a n' k :: size_t
  assumes "a \<noteq> 0" and "unat a dvd m" and "unat n \<le> m" and "m < 2 ^ 64"
  shows "unat a dvd unat (align n a) \<and> unat n \<le> unat (align n a) \<and>
    (\<forall>j. unat a dvd j \<and> unat n \<le> j \<longrightarrow> unat (align n a) \<le> j) \<and>
    align n' 16 mod 16 = 0 \<and> align (k * 16) 16 = k * 16"
  using align_least [OF assms] align16_mod [of n'] align16_exact [of k] by simp

theorem align_smallest_multiple_witness:
  "(16 :: size_t) \<noteq> 0 \<and> unat (16 :: size_t) dvd 80 \<and> unat (65 :: size_t) \<le> 80 \<and>
   (80 :: nat) < 2 ^ 64 \<and>
   unat (16 :: size_t) dvd unat (align 65 16) \<and> unat (65 :: size_t) \<le> unat (align 65 16) \<and>
   unat (align 65 16) \<le> 80 \<and> align 7 16 mod 16 = 0 \<and> align (3 * 16) 16 = 3 * 16"
proof -
  have h: "(16 :: size_t) \<noteq> 0" "unat (16 :: size_t) dvd 80" "unat (65 :: size_t) \<le> 80"
    "(80 :: nat) < 2 ^ 64"
    by simp_all
  from align_smallest_multiple [OF h, of 7 3] show ?thesis
    by simp
qed

section \<open>The size-and-flag field\<close>

lemma split_and_not:
  fixes x :: size_t
  shows "(x AND NOT 1) + (x AND 1) = x"
  by (metis (no_types, lifting) and_zero_eq bit.conj_cancel_left
    bit.conj_disj_distrib bit.disj_cancel_left disjunctive_add_eq_or
    word_and_max word_bw_lcs(1))

text \<open>A raw field with the flag set is the real size plus one.\<close>

lemma free_raw:
  fixes x :: size_t
  assumes "x AND 1 = 1"
  shows "(x AND NOT 1) + 1 = x"
  using split_and_not [of x] assms by simp

lemma real_size_succ:
  fixes y :: size_t
  assumes "even y"
  shows "real_size (y + 1) = y"
proof -
  have "(y + 1) AND 1 = 1"
    using assms by (simp add: and_one_eq flip: odd_iff_mod_2_eq_one)
  from free_raw [OF this] show ?thesis by (simp add: real_size_def)
qed

lemma sub_unat:
  "unat (sz::size_t) + 80 \<le> unat (bs::size_t) \<Longrightarrow> unat (bs - sz) = unat bs - unat sz"
  by (meson add_leD1 unat_sub_if_size)

lemma not_small: "unat (sz::size_t) + 80 \<le> unat (bs::size_t) \<Longrightarrow> \<not> bs < 80"
  by (simp add: word_less_nat_alt)

section \<open>Splitting\<close>

text \<open>A block whose real size is below the minimum is never split.\<close>

lemma split_block_small:
  "real_size (size_fld (mem s block)) < 80 \<Longrightarrow> split_block block sz s = (NULL, s)"
  by (simp add: split_block_def Let_def)

text \<open>No path of \<open>split_block\<close> writes a \<open>region\<close> field.\<close>

lemma split_block_region:
  "region (mem (snd (split_block block sz s)) b) = region (mem s b)"
  by (simp add: split_block_def Let_def upd_block_def)

text \<open>
  C1, as stated, fails. On the free block of 8000 bytes of \<open>heap_split\<close>, whose
  successor is not null, a tail of 16 bytes leaves 7984 bytes, more than the
  minimum block size, and yet \<open>split_block\<close> returns \<open>NULL\<close> and changes nothing:
  line 114 refuses every tail below the minimum block size of 80 bytes. And where
  the split is made (a tail of 736 bytes, at \<open>0x11C60\<close>), the tail's region
  reference is not the block's. For the odd tail size 81 the two size fields
  become 7920 and 82, which are real sizes and add up to 8002.
\<close>

theorem split_block_small_tail_counterexample:
  "is_free 0x10000 heap_split \<and>
   next_block (mem heap_split 0x10000) = 0x20000 \<and>
   unat (16 :: size_t) + 80 \<le> unat (real_size (size_fld (mem heap_split 0x10000))) \<and>
   split_block 0x10000 16 heap_split = (NULL, heap_split) \<and>
   fst (split_block 0x10000 736 heap_split) = 0x11C60 \<and>
   region (mem heap_split 0x10000) = 0x10000 \<and>
   region (mem (snd (split_block 0x10000 736 heap_split)) 0x11C60) = NULL \<and>
   fst (split_block 0x10000 81 heap_split) = 0x11EEF \<and>
   real_size (size_fld (mem (snd (split_block 0x10000 81 heap_split)) 0x10000)) = 7920 \<and>
   real_size (size_fld (mem (snd (split_block 0x10000 81 heap_split)) 0x11EEF)) = 82"
  by (simp add: run_defs)

text \<open>
  C1, amended: for every non-null free block \<open>block\<close> that lies within the address
  space, with a non-null chain successor, for every tail size \<open>sz\<close> of at least the
  minimum block size (80) such that the block's real size is at least \<open>sz\<close> plus
  the minimum block size, \<open>split_block block sz\<close> succeeds: it returns the non-null
  address \<open>block + real size - sz\<close> of the new tail; afterwards the tail's chain
  successor is the block's old successor, the block's chain successor is the tail,
  the block's size field is the old field minus \<open>sz\<close>, the tail's size field is
  \<open>sz + 1\<close>, and for an even \<open>sz\<close> the real sizes of the two add up to the block's
  original real size. (Nothing is said about the tail's region reference.)
\<close>

theorem split_block_links_and_sizes:
  assumes nn: "block \<noteq> NULL"
    and fr: "is_free block s"
    and nx: "next_block (mem s block) \<noteq> NULL"
    and mn: "80 \<le> sz"
    and big: "unat sz + 80 \<le> unat (real_size (size_fld (mem s block)))"
    and fit: "unat block + unat (real_size (size_fld (mem s block))) \<le> 2 ^ 64"
  shows "fst (split_block block sz s) = block + real_size (size_fld (mem s block)) - sz \<and>
    fst (split_block block sz s) \<noteq> NULL \<and>
    next_block (mem (snd (split_block block sz s)) (fst (split_block block sz s))) =
      next_block (mem s block) \<and>
    next_block (mem (snd (split_block block sz s)) block) = fst (split_block block sz s) \<and>
    size_fld (mem (snd (split_block block sz s)) block) = size_fld (mem s block) - sz \<and>
    size_fld (mem (snd (split_block block sz s)) (fst (split_block block sz s))) = sz + 1 \<and>
    (even sz \<longrightarrow>
       unat (real_size (size_fld (mem (snd (split_block block sz s)) block))) +
       unat (real_size (size_fld (mem (snd (split_block block sz s))
                                    (fst (split_block block sz s))))) =
       unat (real_size (size_fld (mem s block))))"
proof -
  let ?raw = "size_fld (mem s block)"
  let ?bs = "real_size ?raw"
  let ?tail = "block + ?bs - sz"
  have c1: "\<not> sz < 80" using mn by simp
  have c2: "\<not> ?bs < 80" using big by (rule not_small)
  have d: "unat (?bs - sz) = unat ?bs - unat sz" using big by (rule sub_unat)
  have "unat (?bs - sz) \<noteq> 0" using d big by arith
  then have off: "?bs - sz \<noteq> 0" by (simp add: unat_eq_zero)
  have tb: "?tail \<noteq> block" using off by (simp add: add_diff_eq [symmetric])
  have raw: "?bs + 1 = ?raw"
    using fr unfolding is_free_def real_size_def by (rule free_raw)
  have tn: "?tail \<noteq> NULL"
  proof -
    have "80 \<le> unat sz" using mn by (simp add: word_le_nat_alt)
    then have "unat block + unat (?bs - sz) < 2 ^ LENGTH(64)"
      using d big fit by simp
    then have "unat (block + (?bs - sz)) = unat block + unat (?bs - sz)"
      by (simp only: unat_add_lem)
    moreover have "0 < unat block" using nn by (simp add: unat_gt_0)
    ultimately have "unat (block + (?bs - sz)) \<noteq> 0" by simp
    then show ?thesis by (simp add: unat_eq_zero add_diff_eq)
  qed
  have run: "split_block block sz s =
     (?tail,
      upd_block ?tail (size_fld_update (\<lambda>_. ?bs - (?raw - sz) + 2))
       (upd_block ?tail (size_fld_update (\<lambda>_. ?bs))
         (upd_block block (size_fld_update (\<lambda>_. ?raw - sz))
           (upd_block (next_block (mem s block)) (prev_block_update (\<lambda>_. ?tail))
             (upd_block ?tail (prev_block_update (\<lambda>_. block))
               (upd_block block (next_block_update (\<lambda>_. ?tail))
                 (upd_block ?tail (next_block_update (\<lambda>_. next_block (mem s block)))
                   s)))))))"
    using nn c1 c2 fr nx tb
    by (simp add: split_block_def Let_def upd_block_def)
  have "?bs - ((?bs + 1) - sz) + 2 = sz + 1" by simp
  then have sz_tail: "?bs - (?raw - sz) + 2 = sz + 1"
    by (simp only: raw)
  have p1: "fst (split_block block sz s) = ?tail" by (simp add: run)
  have p3: "next_block (mem (snd (split_block block sz s)) ?tail) = next_block (mem s block)"
    using tb by (simp add: run upd_block_def)
  have p4: "next_block (mem (snd (split_block block sz s)) block) = ?tail"
    using tb by (simp add: run upd_block_def)
  have p5: "size_fld (mem (snd (split_block block sz s)) block) = ?raw - sz"
    using tb by (simp add: run upd_block_def)
  have p6: "size_fld (mem (snd (split_block block sz s)) ?tail) = sz + 1"
    using tb sz_tail by (simp add: run upd_block_def)
  have p7: "unat (real_size (?raw - sz)) + unat (real_size (sz + 1)) = unat ?bs" if ev: "even sz"
  proof -
    have "even ?bs" by (simp add: real_size_def even_and_iff)
    with ev have e: "even (?bs - sz)" by simp
    have "(?bs + 1) - sz = (?bs - sz) + 1" by simp
    then have "?raw - sz = (?bs - sz) + 1" by (simp only: raw)
    then have "real_size (?raw - sz) = ?bs - sz"
      by (simp only: real_size_succ [OF e])
    moreover have "real_size (sz + 1) = sz"
      by (rule real_size_succ [OF ev])
    ultimately show ?thesis using d big by simp
  qed
  show ?thesis
    using tn p3 p4 p5 p6 p7 unfolding p1 by simp
qed

theorem split_block_links_and_sizes_witness:
  "(0x10000 :: addr) \<noteq> NULL \<and> is_free 0x10000 heap_split \<and>
   next_block (mem heap_split 0x10000) \<noteq> NULL \<and> (80 :: size_t) \<le> 736 \<and>
   unat (736 :: size_t) + 80 \<le> unat (real_size (size_fld (mem heap_split 0x10000))) \<and>
   unat (0x10000 :: addr) + unat (real_size (size_fld (mem heap_split 0x10000))) \<le> 2 ^ 64 \<and>
   fst (split_block 0x10000 736 heap_split) = 0x11C60 \<and>
   next_block (mem (snd (split_block 0x10000 736 heap_split)) 0x11C60) = 0x20000 \<and>
   next_block (mem (snd (split_block 0x10000 736 heap_split)) 0x10000) = 0x11C60 \<and>
   size_fld (mem (snd (split_block 0x10000 736 heap_split)) 0x10000) = 7265 \<and>
   size_fld (mem (snd (split_block 0x10000 736 heap_split)) 0x11C60) = 737 \<and>
   unat (real_size (size_fld (mem (snd (split_block 0x10000 736 heap_split)) 0x10000))) +
   unat (real_size (size_fld (mem (snd (split_block 0x10000 736 heap_split)) 0x11C60))) = 8000"
proof -
  have h: "(0x10000 :: addr) \<noteq> NULL" "is_free 0x10000 heap_split"
    "next_block (mem heap_split 0x10000) \<noteq> NULL" "(80 :: size_t) \<le> 736"
    "unat (736 :: size_t) + 80 \<le> unat (real_size (size_fld (mem heap_split 0x10000)))"
    "unat (0x10000 :: addr) + unat (real_size (size_fld (mem heap_split 0x10000))) \<le> 2 ^ 64"
    by (simp_all add: is_free_def heap_split_def heap_init_def zero_block_def real_size_def)
  have v: "real_size (size_fld (mem heap_split 0x10000)) = 8000"
    "next_block (mem heap_split 0x10000) = 0x20000" "size_fld (mem heap_split 0x10000) = 8001"
    by (simp_all add: heap_split_def heap_init_def zero_block_def real_size_def)
  note r = split_block_links_and_sizes [OF h]
  have f: "fst (split_block 0x10000 736 heap_split) = 0x11C60"
    using r by (simp add: v real_size_def)
  from r h show ?thesis
    unfolding f by (simp add: v real_size_def)
qed

section \<open>Coalescing\<close>

text \<open>
  C2 holds of the documented \<open>merge_block\<close>, not of its body. In \<open>heap_two_free\<close>
  the blocks \<open>b1\<close> and \<open>b2\<close> are free, neighbours in the chain and of one region,
  so the claim has \<open>merge_block\<close> merge them and return \<open>b1\<close>, the leftmost, for
  either argument. The body returns \<open>NULL\<close> for both and leaves the state as it was.
\<close>

theorem merge_block_returns_null:
  "is_free 0x10000 heap_two_free \<and> is_free 0x100A0 heap_two_free \<and>
   next_block (mem heap_two_free 0x10000) = 0x100A0 \<and>
   prev_block (mem heap_two_free 0x100A0) = 0x10000 \<and>
   region (mem heap_two_free 0x100A0) = region (mem heap_two_free 0x10000) \<and>
   merge_block 0x10000 heap_two_free = (NULL, heap_two_free) \<and>
   merge_block 0x100A0 heap_two_free = (NULL, heap_two_free)"
  by (simp add: run_defs)

section \<open>First fit\<close>




section \<open>Writes to bytes\<close>

text \<open>What a write that returns has changed, and when a write returns.\<close>

lemma write_range_heads:
  assumes "write_range p n g s = Inr s'"
  shows "blist_head s' = blist_head s \<and> blist_tail s' = blist_tail s \<and>
    free_head s' = free_head s \<and> free_tail s' = free_tail s \<and>
    events s' = events s \<and> mappings s' = mappings s \<and> libc_objects s' = libc_objects s"
  using assms
  by (auto simp: write_range_def Let_def upd_block_def split: if_splits)

lemma write_range_bytes:
  assumes "write_range p n g s = Inr s'"
  shows "bytes s' a = (if a - p < n then g a else bytes s a)"
  using assms
  by (auto simp: write_range_def Let_def upd_block_def split: if_splits)

lemma write_range_mem:
  assumes "write_range p n g s = Inr s'" and "b \<noteq> p - sizeof_mem_block"
  shows "mem s' b = mem s b"
  using assms
  by (auto simp: write_range_def Let_def upd_block_def split: if_splits)

lemma write_range_libc:
  assumes "write_range p n g s = Inr s'" and "within (libc_objects s) p n"
  shows "mem s' = mem s"
  using assms
  by (auto simp: write_range_def Let_def upd_block_def split: if_splits)

lemma write_range_ok:
  assumes "p \<noteq> NULL" and "within (libc_objects s) p n \<or> within (mappings s) p n"
  shows "\<not> isl (write_range p n g s)"
  using assms by (auto simp: write_range_def Let_def)

section \<open>Allocation\<close>

text \<open>
  On the path through \<open>mmap\<close> the fresh header has real size 0, so the call of
  \<open>split_block\<close> in \<open>malloc_impl\<close> changes nothing: \<open>malloc_impl\<close> is the copy of the
  label, the writes to the new header, and the scribble.
\<close>

lemma malloc_impl_failed:
  assumes "align (sz + sizeof_mem_block) PAGE_SIZE = 0 \<or> mmap_ret e = MAP_FAILED"
  shows "malloc_impl e sz nm s =
    Inr (NULL, s\<lparr>events := events s @ [Mmap (sz + sizeof_mem_block)]\<rparr>)"
  using assms by (auto simp add: malloc_impl_def reuse_def mmap_def Let_def)

lemma malloc_impl_mapped:
  assumes pg: "align (sz + sizeof_mem_block) PAGE_SIZE \<noteq> 0" and ok: "mmap_ret e \<noteq> MAP_FAILED"
  shows "malloc_impl e sz nm s =
    (if length (c_str nm) < 32
     then (if scribble e
           then (case memset (mmap_ret e + sizeof_mem_block) 0xAA (sz + sizeof_mem_block)
                        (mapped_block e sz nm s) of
                   Inl f \<Rightarrow> Inl f
                 | Inr s8 \<Rightarrow> Inr (mmap_ret e + sizeof_mem_block, s8))
           else Inr (mmap_ret e + sizeof_mem_block, mapped_block e sz nm s))
     else Inl Out_of_bounds)"
proof -
  let ?r = "mmap_ret e"
  let ?len = "sz + sizeof_mem_block"
  let ?s1 = "zero_fill ?r (align ?len PAGE_SIZE)
               (s\<lparr>events := events s @ [Mmap ?len],
                  mappings := (?r, align ?len PAGE_SIZE) # mappings s\<rparr>)"
  let ?s4 = "set_free ?r (upd_block ?r (region_update (\<lambda>_. ?r))
               (upd_block ?r (name_update (\<lambda>_. c_str nm)) ?s1))"
  have len: "?len \<noteq> 0" using pg by (auto simp: align_zero)
  have m: "mmap e ?len s = (?r, ?s1)"
    using len pg ok by (simp add: mmap_def Let_def)
  have z: "mem ?s1 ?r = zero_block"
    using pg by (simp add: zero_fill_def word_greater_zero_iff)
  have small: "real_size (size_fld (mem ?s4 ?r)) < 80"
    by (simp add: set_free_def upd_block_def z zero_block_def real_size_def)
  have sp: "split_block ?r x ?s4 = (NULL, ?s4)" for x
    by (rule split_block_small [OF small])
  show ?thesis
    using ok by (simp add: malloc_impl_def reuse_def m sp Let_def strcpy_name_def mapped_block_def)
qed

lemma mapped_block_heads:
  "blist_head (mapped_block e sz nm s) = blist_head s \<and>
   blist_tail (mapped_block e sz nm s) = blist_tail s \<and>
   free_head (mapped_block e sz nm s) = free_head s \<and>
   free_tail (mapped_block e sz nm s) = free_tail s \<and>
   libc_objects (mapped_block e sz nm s) = libc_objects s \<and>
   events (mapped_block e sz nm s) = events s @ [Mmap (sz + sizeof_mem_block)] \<and>
   mappings (mapped_block e sz nm s) =
     (mmap_ret e, align (sz + sizeof_mem_block) PAGE_SIZE) # mappings s"
  by (simp add: mapped_block_def zero_fill_def upd_block_def set_free_def set_used_def)

lemma mapped_block_mem:
  assumes "\<not> b - mmap_ret e < align (sz + sizeof_mem_block) PAGE_SIZE"
    and "align (sz + sizeof_mem_block) PAGE_SIZE \<noteq> 0"
  shows "mem (mapped_block e sz nm s) b = mem s b"
proof -
  have "b \<noteq> mmap_ret e" using assms by (auto simp: word_greater_zero_iff)
  then show ?thesis using assms(1)
    by (simp add: mapped_block_def zero_fill_def upd_block_def set_free_def set_used_def)
qed

lemma within_head:
  assumes "unat off + unat n \<le> unat l"
  shows "within ((r, l) # objs) (r + off) n"
  using assms by (simp add: within_def)

text \<open>When \<open>malloc_impl\<close> returns.\<close>

lemma malloc_impl_returns:
  assumes lab: "length (c_str nm) < 32" and scr: "scribble_fits e sz"
  shows "\<not> isl (malloc_impl e sz nm s)"
proof (cases "align (sz + sizeof_mem_block) PAGE_SIZE = 0 \<or> mmap_ret e = MAP_FAILED")
  case True
  then show ?thesis by (simp add: malloc_impl_failed)
next
  case False
  then have pg: "align (sz + sizeof_mem_block) PAGE_SIZE \<noteq> 0" and ok: "mmap_ret e \<noteq> MAP_FAILED"
    by simp_all
  show ?thesis
  proof (cases "scribble e")
    case False
    then show ?thesis using lab by (simp add: malloc_impl_mapped [OF pg ok])
  next
    case True
    with scr have nz: "mmap_ret e + sizeof_mem_block \<noteq> NULL"
      and fit: "unat (sizeof_mem_block :: size_t) + unat (sz + sizeof_mem_block)
                \<le> unat (align (sz + sizeof_mem_block) PAGE_SIZE)"
      by (simp_all add: scribble_fits_def)
    have "within (mappings (mapped_block e sz nm s)) (mmap_ret e + sizeof_mem_block)
            (sz + sizeof_mem_block)"
      unfolding mapped_block_heads [THEN conjunct2, THEN conjunct2, THEN conjunct2,
        THEN conjunct2, THEN conjunct2, THEN conjunct2]
      using fit by (rule within_head)
    then have "\<not> isl (memset (mmap_ret e + sizeof_mem_block) 0xAA (sz + sizeof_mem_block)
                        (mapped_block e sz nm s))"
      unfolding memset_def using nz by (intro write_range_ok) simp_all
    then obtain s8 where "memset (mmap_ret e + sizeof_mem_block) 0xAA (sz + sizeof_mem_block)
                            (mapped_block e sz nm s) = Inr s8"
      by (cases "memset (mmap_ret e + sizeof_mem_block) 0xAA (sz + sizeof_mem_block)
                   (mapped_block e sz nm s)") auto
    then show ?thesis using lab True
      by (simp add: malloc_impl_mapped [OF pg ok])
  qed
qed

text \<open>What a \<open>malloc_impl\<close> that returns has changed.\<close>

lemma malloc_impl_frame:
  assumes r: "malloc_impl e sz nm s = Inr (p, s')"
  shows "blist_head s' = blist_head s \<and> blist_tail s' = blist_tail s \<and>
    free_head s' = free_head s \<and> free_tail s' = free_tail s \<and>
    libc_objects s' = libc_objects s \<and>
    (\<forall>b. \<not> b - mmap_ret e < align (sz + sizeof_mem_block) PAGE_SIZE \<longrightarrow> mem s' b = mem s b)"
proof (cases "align (sz + sizeof_mem_block) PAGE_SIZE = 0 \<or> mmap_ret e = MAP_FAILED")
  case True
  then show ?thesis using r by (auto simp: malloc_impl_failed)
next
  case False
  then have pg: "align (sz + sizeof_mem_block) PAGE_SIZE \<noteq> 0" and ok: "mmap_ret e \<noteq> MAP_FAILED"
    by simp_all
  note mb = mapped_block_heads [of e sz nm s]
  have fr: "mem (mapped_block e sz nm s) b = mem s b"
    if "\<not> b - mmap_ret e < align (sz + sizeof_mem_block) PAGE_SIZE" for b
    using that pg by (rule mapped_block_mem)
  show ?thesis
  proof (cases "scribble e")
    case False
    with r have "s' = mapped_block e sz nm s"
      by (simp add: malloc_impl_mapped [OF pg ok] split: if_splits)
    then show ?thesis using mb fr by simp
  next
    case True
    with r have w: "write_range (mmap_ret e + sizeof_mem_block) (sz + sizeof_mem_block)
                      (\<lambda>_. 0xAA) (mapped_block e sz nm s) = Inr s'"
      by (simp add: malloc_impl_mapped [OF pg ok] memset_def split: if_splits sum.splits)
    note h = write_range_heads [OF w]
    have "mem s' b = mem s b"
      if o: "\<not> b - mmap_ret e < align (sz + sizeof_mem_block) PAGE_SIZE" for b
    proof -
      have "b \<noteq> mmap_ret e" using o pg by (auto simp: word_greater_zero_iff)
      then have "b \<noteq> mmap_ret e + sizeof_mem_block - sizeof_mem_block" by simp
      from write_range_mem [OF w this] fr [OF o] show ?thesis by simp
    qed
    then show ?thesis using h mb by simp
  qed
qed

lemma malloc_impl_mapped_result:
  assumes pg: "align (sz + sizeof_mem_block) PAGE_SIZE \<noteq> 0" and ok: "mmap_ret e \<noteq> MAP_FAILED"
    and r: "malloc_impl e sz nm s = Inr (q, s')"
  shows "q = mmap_ret e + sizeof_mem_block \<and>
    events s' = events s @ [Mmap (sz + sizeof_mem_block)] \<and>
    mappings s' = (mmap_ret e, align (sz + sizeof_mem_block) PAGE_SIZE) # mappings s"
proof (cases "scribble e")
  case False
  with r have "q = mmap_ret e + sizeof_mem_block \<and> s' = mapped_block e sz nm s"
    by (simp add: malloc_impl_mapped [OF pg ok] split: if_splits)
  then show ?thesis using mapped_block_heads [of e sz nm s] by simp
next
  case True
  with r have q: "q = mmap_ret e + sizeof_mem_block"
    and w: "write_range (mmap_ret e + sizeof_mem_block) (sz + sizeof_mem_block)
              (\<lambda>_. 0xAA) (mapped_block e sz nm s) = Inr s'"
    by (auto simp add: malloc_impl_mapped [OF pg ok] memset_def split: if_splits sum.splits)
  from write_range_heads [OF w] mapped_block_heads [of e sz nm s] q show ?thesis by simp
qed

text \<open>
  Where \<open>malloc_impl\<close> and \<open>calloc_impl\<close> leave their object: a label of 32
  characters, a scribble over a mapping that the request fills to its last 64
  bytes, and the \<open>memset\<close> of \<open>calloc_impl\<close> over 63 mapped bytes.
\<close>

lemma malloc_impl_long_label:
  "malloc_impl env_ok 8 ''abcdefghijklmnopqrstuvwxyz012345'' heap_init = Inl Out_of_bounds"
  by (simp add: run_defs)

lemma malloc_impl_scribble_overrun:
  "malloc_impl env_scribble 4032 ''bob'' heap_init = Inl Out_of_bounds"
  by (simp add: run_defs)

lemma malloc_impl_scribble_links:
  "\<not> isl (malloc_impl env_scribble 300 ''bob'' heap_init) \<and>
   next_free (mem (snd (projr (malloc_impl env_scribble 300 ''bob'' heap_init))) 0x7F0000200000) =
     0xAAAAAAAAAAAAAAAA \<and>
   bytes (snd (projr (malloc_impl env_scribble 300 ''bob'' heap_init))) 0x7F0000200040 = 0xAA"
  by (simp add: run_defs)

lemma calloc_impl_wrapped_length:
  "calloc_impl env_ok 1 0xFFFFFFFFFFFFFFFF ''x'' heap_init = Inl Out_of_bounds"
  by (simp add: run_defs)

text \<open>
  C4 holds of an allocator that stores the aligned size, not of \<open>malloc_impl\<close>.
  \<open>malloc_impl(8, "a")\<close> on the initial state computes the aligned size 80 and then
  stores \<open>actual_size\<close>, 8 + 64 = 72, in the size field of the block it returns
  (line 367); the real size 72 leaves the remainder 8 modulo 16.
\<close>

theorem malloc_impl_stores_unaligned_size:
  "\<not> isl (malloc_impl env_ok 8 ''a'' heap_init) \<and>
   fst (projr (malloc_impl env_ok 8 ''a'' heap_init)) = 0x7F0000000040 \<and>
   size_fld (mem (snd (projr (malloc_impl env_ok 8 ''a'' heap_init))) 0x7F0000000000) = 72 \<and>
   real_size (size_fld (mem (snd (projr (malloc_impl env_ok 8 ''a'' heap_init))) 0x7F0000000000))
     mod 16 = 8 \<and>
   align (8 + sizeof_mem_block) ALIGNMENT = 80"
  by (simp add: run_defs)

section \<open>Release\<close>

text \<open>
  C3, as stated, fails: \<open>free_impl\<close> has no test of the free flag and no way to
  report anything. After \<open>malloc_impl(300, "bob")\<close> and one \<open>free_impl\<close> of the
  returned pointer the Free List is the one block at \<open>0x7F0000000000\<close>. The second
  \<open>free_impl\<close> of the same pointer inserts the block at the head again: the block
  becomes its own successor, and the Free List is no longer the list of that one
  block.
\<close>

theorem free_impl_twice_counterexample:
  "\<not> isl (malloc_impl env_ok 300 ''bob'' heap_init) \<and>
   ptr_allocated = 0x7F0000000040 \<and>
   is_free 0x7F0000000000 heap_released \<and>
   free_list heap_released (free_head heap_released) [0x7F0000000000] \<and>
   free_head (free_impl ptr_allocated heap_released) = 0x7F0000000000 \<and>
   next_free (mem (free_impl ptr_allocated heap_released) 0x7F0000000000) = 0x7F0000000000 \<and>
   \<not> free_list (free_impl ptr_allocated heap_released)
         (free_head (free_impl ptr_allocated heap_released)) [0x7F0000000000]"
  by (simp add: run_defs)

text \<open>
  C3, amended: \<open>free_impl\<close> does not detect a double release. For every state and
  every non-null pointer \<open>ptr\<close> whose header address \<open>ptr - 64\<close> is not null, after
  two calls of \<open>free_impl ptr\<close> in a row the block is marked free, it is the head
  of the Free List, and it is linked to itself: its \<open>next_free\<close> and its
  \<open>prev_free\<close> are the block.
\<close>

theorem free_impl_twice_self_linked:
  assumes "ptr \<noteq> NULL" and "ptr - sizeof_mem_block \<noteq> NULL"
  shows "free_head (free_impl ptr (free_impl ptr s)) = ptr - sizeof_mem_block \<and>
     next_free (mem (free_impl ptr (free_impl ptr s)) (ptr - sizeof_mem_block)) =
       ptr - sizeof_mem_block \<and>
     prev_free (mem (free_impl ptr (free_impl ptr s)) (ptr - sizeof_mem_block)) =
       ptr - sizeof_mem_block \<and>
     is_free (ptr - sizeof_mem_block) (free_impl ptr (free_impl ptr s))"
  using assms
  by (simp add: free_impl_def add_free_def set_free_def upd_block_def Let_def is_free_def
      word_bw_assocs)

theorem free_impl_twice_self_linked_witness:
  "(0x7F0000000040 :: addr) \<noteq> NULL \<and> (0x7F0000000040 :: addr) - sizeof_mem_block \<noteq> NULL \<and>
   free_head (free_impl 0x7F0000000040 (free_impl 0x7F0000000040 heap_allocated)) =
     0x7F0000000000 \<and>
   next_free (mem (free_impl 0x7F0000000040 (free_impl 0x7F0000000040 heap_allocated))
                0x7F0000000000) = 0x7F0000000000 \<and>
   prev_free (mem (free_impl 0x7F0000000040 (free_impl 0x7F0000000040 heap_allocated))
                0x7F0000000000) = 0x7F0000000000 \<and>
   is_free 0x7F0000000000 (free_impl 0x7F0000000040 (free_impl 0x7F0000000040 heap_allocated))"
proof -
  have h: "(0x7F0000000040 :: addr) \<noteq> NULL" "(0x7F0000000040 :: addr) - sizeof_mem_block \<noteq> NULL"
    by simp_all
  from free_impl_twice_self_linked [OF h, of heap_allocated] show ?thesis
    by simp
qed

section \<open>Zero-allocation\<close>

text \<open>
  C7, as stated, fails: \<open>calloc_impl\<close> multiplies in \<open>size_t\<close> and compares nothing.
  For 0x8000000000000001 members of 2 bytes the product overflows and wraps around
  to 2; the call maps 2 + 64 bytes and returns a block, it does not fail.
\<close>

theorem calloc_impl_overflow_counterexample:
  "2 ^ 64 \<le> unat (0x8000000000000001 :: size_t) * unat (2 :: size_t) \<and>
   \<not> isl (calloc_impl env_ok 0x8000000000000001 2 ''n'' heap_init) \<and>
   fst (projr (calloc_impl env_ok 0x8000000000000001 2 ''n'' heap_init)) = 0x7F0000000040 \<and>
   events (snd (projr (calloc_impl env_ok 0x8000000000000001 2 ''n'' heap_init))) = [Mmap 66]"
  by (simp add: run_defs)

text \<open>When \<open>calloc_impl\<close> returns, and what a \<open>calloc_impl\<close> that returns has zeroed.\<close>

lemma calloc_impl_returns:
  assumes ok: "mmap_ret e \<noteq> MAP_FAILED"
    and lab: "length (c_str nm) < 32"
    and room: "unat (nmemb * sz) + 4160 \<le> 2 ^ 64"
    and sf: "scribble_fits e (nmemb * sz)"
    and nz: "mmap_ret e + sizeof_mem_block \<noteq> NULL"
  shows "\<not> isl (calloc_impl e nmemb sz nm s) \<and>
    fst (projr (calloc_impl e nmemb sz nm s)) = mmap_ret e + sizeof_mem_block \<and>
    events (snd (projr (calloc_impl e nmemb sz nm s))) =
      events s @ [Mmap (nmemb * sz + sizeof_mem_block)] \<and>
    (\<forall>i. i < nmemb * sz \<longrightarrow>
       bytes (snd (projr (calloc_impl e nmemb sz nm s))) (mmap_ret e + sizeof_mem_block + i) = 0)"
proof -
  let ?n = "nmemb * sz"
  let ?len = "?n + sizeof_mem_block"
  let ?p = "mmap_ret e + sizeof_mem_block"
  let ?ml = "align ?len PAGE_SIZE"
  have "unat ?n + unat (sizeof_mem_block :: size_t) < 2 ^ LENGTH(64)"
    using room by simp
  then have ulen: "unat ?len = unat ?n + 64"
    by (simp only: unat_add_lem) simp
  have pgge: "unat ?len \<le> unat ?ml"
    using room ulen by (intro align_page) simp
  have "?len \<noteq> 0" using ulen by (auto simp: unat_eq_zero [symmetric])
  with pgge have pg: "?ml \<noteq> 0"
    by (metis unat_eq_zero le_zero_eq)
  from malloc_impl_returns [OF lab sf, of s]
  obtain q sA where m: "malloc_impl e ?n nm s = Inr (q, sA)"
    by (cases "malloc_impl e ?n nm s") auto
  from malloc_impl_mapped_result [OF pg ok m]
  have q: "q = ?p" and ev: "events sA = events s @ [Mmap ?len]"
    and mp: "mappings sA = (mmap_ret e, ?ml) # mappings s"
    by simp_all
  have "unat (sizeof_mem_block :: size_t) + unat ?n \<le> unat ?ml"
    using pgge ulen by simp
  then have "within (mappings sA) ?p ?n"
    unfolding mp by (rule within_head)
  then have "\<not> isl (write_range ?p ?n (\<lambda>_. 0) sA)"
    using nz by (intro write_range_ok) simp_all
  then obtain s2 where w: "write_range ?p ?n (\<lambda>_. 0) sA = Inr s2"
    by (cases "write_range ?p ?n (\<lambda>_. 0) sA") auto
  have c: "calloc_impl e nmemb sz nm s = Inr (?p, s2)"
    using m q w by (simp add: calloc_impl_def memset_def)
  have b: "bytes s2 (?p + i) = 0" if "i < ?n" for i
    using write_range_bytes [OF w, of "?p + i"] that by simp
  show ?thesis
    using write_range_heads [OF w] ev b by (simp add: c)
qed

lemma calloc_impl_zero:
  assumes "calloc_impl e nmemb sz nm s = Inr (p, s')" and "i < nmemb * sz"
  shows "bytes s' (p + i) = 0"
proof -
  from assms(1) obtain sA where w: "write_range p (nmemb * sz) (\<lambda>_. 0) sA = Inr s'"
    by (auto simp: calloc_impl_def memset_def split: sum.splits)
  from write_range_bytes [OF w, of "p + i"] assms(2) show ?thesis by simp
qed

text \<open>
  C7, amended: \<open>calloc_impl\<close> does not detect an overflow of \<open>nmemb * sz\<close>; it
  requests the product modulo \<open>2 ^ 64\<close> from \<open>malloc_impl\<close>. Whenever that product
  \<open>n\<close> leaves room for the header and the rounding to pages (\<open>n + 4160 \<le> 2 ^ 64\<close>),
  the label has fewer than 32 characters, \<open>mmap\<close> succeeds with a payload address
  that is not null, and the scribble is off or ends inside the mapped pages,
  \<open>calloc_impl\<close> succeeds: that one mapping of \<open>n + 64\<close> bytes is the only call it
  has added to the record, and it returns the payload address. And whenever
  \<open>calloc_impl\<close> succeeds, each of the \<open>n\<close> bytes of the payload it returns is zero.
\<close>

theorem calloc_impl_zeroes_wrapped_product:
  "(mmap_ret e \<noteq> MAP_FAILED \<and> length (c_str nm) < 32 \<and>
    unat (nmemb * sz) + 4160 \<le> 2 ^ 64 \<and> scribble_fits e (nmemb * sz) \<and>
    mmap_ret e + sizeof_mem_block \<noteq> NULL \<longrightarrow>
      \<not> isl (calloc_impl e nmemb sz nm s) \<and>
      fst (projr (calloc_impl e nmemb sz nm s)) = mmap_ret e + sizeof_mem_block \<and>
      events (snd (projr (calloc_impl e nmemb sz nm s))) =
        events s @ [Mmap (nmemb * sz + sizeof_mem_block)]) \<and>
   (\<not> isl (calloc_impl e nmemb sz nm s) \<longrightarrow>
      (\<forall>i. i < nmemb * sz \<longrightarrow>
         bytes (snd (projr (calloc_impl e nmemb sz nm s)))
           (fst (projr (calloc_impl e nmemb sz nm s)) + i) = 0))"
proof (intro conjI impI allI)
  assume a: "mmap_ret e \<noteq> MAP_FAILED \<and> length (c_str nm) < 32 \<and>
    unat (nmemb * sz) + 4160 \<le> 2 ^ 64 \<and> scribble_fits e (nmemb * sz) \<and>
    mmap_ret e + sizeof_mem_block \<noteq> NULL"
  then have r: "\<not> isl (calloc_impl e nmemb sz nm s) \<and>
    fst (projr (calloc_impl e nmemb sz nm s)) = mmap_ret e + sizeof_mem_block \<and>
    events (snd (projr (calloc_impl e nmemb sz nm s))) =
      events s @ [Mmap (nmemb * sz + sizeof_mem_block)]"
    using calloc_impl_returns [of e nm nmemb sz s] by blast
  from r show "\<not> isl (calloc_impl e nmemb sz nm s)" by simp
  from r show "fst (projr (calloc_impl e nmemb sz nm s)) = mmap_ret e + sizeof_mem_block" by simp
  from r show "events (snd (projr (calloc_impl e nmemb sz nm s))) =
      events s @ [Mmap (nmemb * sz + sizeof_mem_block)]" by simp
next
  fix i
  assume "\<not> isl (calloc_impl e nmemb sz nm s)" and i: "i < nmemb * sz"
  then have "calloc_impl e nmemb sz nm s =
      Inr (fst (projr (calloc_impl e nmemb sz nm s)), snd (projr (calloc_impl e nmemb sz nm s)))"
    by (cases "calloc_impl e nmemb sz nm s") auto
  from calloc_impl_zero [OF this i]
  show "bytes (snd (projr (calloc_impl e nmemb sz nm s)))
          (fst (projr (calloc_impl e nmemb sz nm s)) + i) = 0" .
qed

theorem calloc_impl_zeroes_wrapped_product_witness:
  "mmap_ret env_ok \<noteq> MAP_FAILED \<and> length (c_str ''ten'') < 32 \<and>
   unat ((10 :: size_t) * 8) + 4160 \<le> 2 ^ 64 \<and> scribble_fits env_ok (10 * 8) \<and>
   mmap_ret env_ok + sizeof_mem_block \<noteq> NULL \<and>
   \<not> isl (calloc_impl env_ok 10 8 ''ten'' heap_init) \<and>
   fst (projr (calloc_impl env_ok 10 8 ''ten'' heap_init)) = 0x7F0000000040 \<and>
   events (snd (projr (calloc_impl env_ok 10 8 ''ten'' heap_init))) = [Mmap 144] \<and>
   bytes (snd (projr (calloc_impl env_ok 10 8 ''ten'' heap_init))) 0x7F0000000040 = 0 \<and>
   bytes (snd (projr (calloc_impl env_ok 10 8 ''ten'' heap_init))) 0x7F000000008F = 0 \<and>
   mmap_ret env_scribble \<noteq> MAP_FAILED \<and> scribble env_scribble \<and>
   scribble_fits env_scribble (10 * 8) \<and>
   mmap_ret env_scribble + sizeof_mem_block \<noteq> NULL \<and>
   \<not> isl (calloc_impl env_scribble 10 8 ''ten'' heap_init) \<and>
   fst (projr (calloc_impl env_scribble 10 8 ''ten'' heap_init)) = 0x7F0000200040 \<and>
   bytes (snd (projr (calloc_impl env_scribble 10 8 ''ten'' heap_init))) 0x7F000020008F = 0"
proof -
  have h: "mmap_ret env_ok \<noteq> MAP_FAILED \<and> length (c_str ''ten'') < 32 \<and>
    unat ((10 :: size_t) * 8) + 4160 \<le> 2 ^ 64 \<and> scribble_fits env_ok (10 * 8) \<and>
    mmap_ret env_ok + sizeof_mem_block \<noteq> NULL"
    by (simp add: env_ok_def c_str_def scribble_fits_def)
  have k: "mmap_ret env_scribble \<noteq> MAP_FAILED \<and> length (c_str ''ten'') < 32 \<and>
    unat ((10 :: size_t) * 8) + 4160 \<le> 2 ^ 64 \<and> scribble_fits env_scribble (10 * 8) \<and>
    mmap_ret env_scribble + sizeof_mem_block \<noteq> NULL"
    by (simp add: env_scribble_def c_str_def scribble_fits_def align_def)
  have f: "scribble env_scribble"
    by (simp add: env_scribble_def)
  note r = calloc_impl_zeroes_wrapped_product [of env_ok "''ten''" 10 8 heap_init]
  note q = calloc_impl_zeroes_wrapped_product [of env_scribble "''ten''" 10 8 heap_init]
  from r h have r1: "\<not> isl (calloc_impl env_ok 10 8 ''ten'' heap_init)"
    and r2: "fst (projr (calloc_impl env_ok 10 8 ''ten'' heap_init)) =
               mmap_ret env_ok + sizeof_mem_block"
    and r3: "events (snd (projr (calloc_impl env_ok 10 8 ''ten'' heap_init))) =
               events heap_init @ [Mmap (10 * 8 + sizeof_mem_block)]"
    by blast+
  from q k have q1: "\<not> isl (calloc_impl env_scribble 10 8 ''ten'' heap_init)"
    and q2: "fst (projr (calloc_impl env_scribble 10 8 ''ten'' heap_init)) =
               mmap_ret env_scribble + sizeof_mem_block"
    by blast+
  from r r1 have b: "bytes (snd (projr (calloc_impl env_ok 10 8 ''ten'' heap_init)))
      (fst (projr (calloc_impl env_ok 10 8 ''ten'' heap_init)) + i) = 0" if "i < 10 * 8" for i
    using that by blast
  from q q1 have c: "bytes (snd (projr (calloc_impl env_scribble 10 8 ''ten'' heap_init)))
      (fst (projr (calloc_impl env_scribble 10 8 ''ten'' heap_init)) + i) = 0" if "i < 10 * 8" for i
    using that by blast
  have v: "mmap_ret env_ok = 0x7F0000000000" "mmap_ret env_scribble = 0x7F0000200000"
    "events heap_init = []"
    by (simp_all add: env_ok_def env_scribble_def heap_init_def)
  from b [of 0] b [of 79] c [of 79]
  have z: "bytes (snd (projr (calloc_impl env_ok 10 8 ''ten'' heap_init))) 0x7F0000000040 = 0"
    "bytes (snd (projr (calloc_impl env_ok 10 8 ''ten'' heap_init))) 0x7F000000008F = 0"
    "bytes (snd (projr (calloc_impl env_scribble 10 8 ''ten'' heap_init))) 0x7F000020008F = 0"
    by (simp_all add: r2 q2 v)
  from h k f r1 r2 r3 q1 q2 z show ?thesis
    by (simp add: v)
qed

section \<open>Resizing\<close>

lemma base_within:
  "list_ex (\<lambda>(b, l). b = p \<and> unat n \<le> unat l) xs \<Longrightarrow>
   list_ex (\<lambda>(r, l). unat (p - r) + unat n \<le> unat l) xs"
  by (induction xs) auto

lemma lives_within: "lives p n s \<Longrightarrow> within (libc_objects s) p n"
  unfolding lives_def within_def by (rule base_within)

lemma base_only:
  "list_ex (\<lambda>(b, l). b = p \<and> unat n \<le> unat l) xs \<Longrightarrow> list_ex (\<lambda>(b, l). b = p) xs"
  by (induction xs) auto

lemma lives_base: "lives p n s \<Longrightarrow> list_ex (\<lambda>(b, l). b = p) (libc_objects s)"
  unfolding lives_def by (rule base_only)

lemma within_tail: "within objs p n \<Longrightarrow> within (x # objs) p n"
  by (simp add: within_def)

lemma within_self: "within ((p, n) # objs) p n"
  by (simp add: within_def)

lemma realloc_impl_library_returns:
  assumes np: "libc_malloc_ret e \<noteq> NULL" and pn: "ptr \<noteq> NULL" and l: "lives ptr sz s"
  shows "\<not> isl (realloc_impl e ptr sz nm s)"
proof (cases "sz = 0")
  case True
  then show ?thesis using np pn
    by (simp add: realloc_impl_def libc_malloc_def libc_free_def Let_def)
next
  case False
  let ?np = "libc_malloc_ret e"
  let ?s1 = "s\<lparr>events := events s @ [Libc_malloc sz],
               libc_objects := (?np, sz) # libc_objects s\<rparr>"
  have src: "within (libc_objects ?s1) ptr sz"
    using lives_within [OF l] by (simp add: within_tail)
  have dst: "within (libc_objects ?s1) ?np sz"
    by (simp add: within_self)
  from dst np have "\<not> isl (write_range ?np sz (\<lambda>a. bytes ?s1 (ptr + (a - ?np))) ?s1)"
    by (intro write_range_ok) simp_all
  then obtain s2 where w: "write_range ?np sz (\<lambda>a. bytes ?s1 (ptr + (a - ?np))) ?s1 = Inr s2"
    by (cases "write_range ?np sz (\<lambda>a. bytes ?s1 (ptr + (a - ?np))) ?s1") auto
  have c: "memcpy ?np ptr sz ?s1 = Inr s2"
    using False pn src w by (simp add: memcpy_def)
  have "libc_objects s2 = (?np, sz) # libc_objects s"
    using write_range_heads [OF w] by simp
  then have "list_ex (\<lambda>(b, l). b = ptr) (libc_objects s2)"
    using lives_base [OF l] by simp
  then have "\<not> isl (libc_free ptr s2)"
    using pn by (simp add: libc_free_def Let_def)
  then obtain s3 where f: "libc_free ptr s2 = Inr s3"
    by (cases "libc_free ptr s2") auto
  show ?thesis
    using np pn False c f by (simp add: realloc_impl_def libc_malloc_def Let_def)
qed

lemma libc_free_frame:
  assumes "libc_free p s = Inr s'"
  shows "blist_head s' = blist_head s \<and> blist_tail s' = blist_tail s \<and>
    free_head s' = free_head s \<and> free_tail s' = free_tail s \<and> mem s' = mem s"
  using assms by (auto simp: libc_free_def Let_def split: if_splits)

lemma realloc_impl_frame:
  assumes pn: "ptr \<noteq> NULL" and sn: "sz \<noteq> 0" and r: "realloc_impl e ptr sz nm s = Inr (q, s')"
  shows "blist_head s' = blist_head s \<and> blist_tail s' = blist_tail s \<and>
    free_head s' = free_head s \<and> free_tail s' = free_tail s \<and>
    (libc_malloc_ret e \<noteq> NULL \<longrightarrow> mem s' = mem s) \<and>
    (\<forall>b. \<not> b - mmap_ret e < align (sz + sizeof_mem_block) PAGE_SIZE \<longrightarrow> mem s' b = mem s b)"
proof (cases "libc_malloc_ret e = NULL")
  case True
  let ?s1 = "s\<lparr>events := events s @ [Libc_malloc sz]\<rparr>"
  have "malloc_impl e sz nm ?s1 = Inr (q, s')"
    using True r by (simp add: realloc_impl_def libc_malloc_def Let_def)
  from malloc_impl_frame [OF this] True show ?thesis by simp
next
  case False
  let ?np = "libc_malloc_ret e"
  let ?s1 = "s\<lparr>events := events s @ [Libc_malloc sz],
               libc_objects := (?np, sz) # libc_objects s\<rparr>"
  from r False pn sn obtain s2 where c: "memcpy ?np ptr sz ?s1 = Inr s2"
    and f: "libc_free ptr s2 = Inr s'"
    by (auto simp: realloc_impl_def libc_malloc_def Let_def split: sum.splits)
  from c sn have w: "write_range ?np sz (\<lambda>a. bytes ?s1 (ptr + (a - ?np))) ?s1 = Inr s2"
    by (simp add: memcpy_def split: if_splits)
  have "within (libc_objects ?s1) ?np sz" by (simp add: within_self)
  from write_range_libc [OF w this] have m: "mem s2 = mem s" by simp
  from write_range_heads [OF w] libc_free_frame [OF f] m show ?thesis by simp
qed

text \<open>
  C8 holds of the \<open>realloc_impl\<close> that its comments describe (``We will free the
  block and return NULL here''), not of its body. With the block of
  \<open>heap_allocated\<close> in use, \<open>realloc_impl(ptr, 0, "bob")\<close> returns \<open>NULL\<close> but releases
  the C library's fresh pointer, not \<open>ptr\<close>: the block stays used and the Free List
  empty, where \<open>free_impl(ptr)\<close> marks it free and makes it the head of the Free
  List. When the C library's \<open>malloc(0)\<close> returns \<open>NULL\<close>, the result is not even
  null: it is a new block from \<open>malloc_impl\<close>.
\<close>

theorem realloc_impl_zero_keeps_block:
  "\<not> isl (malloc_impl env_ok 300 ''bob'' heap_init) \<and>
   ptr_allocated = 0x7F0000000040 \<and>
   \<not> is_free 0x7F0000000000 heap_allocated \<and>
   \<not> isl (realloc_impl env_ok ptr_allocated 0 ''bob'' heap_allocated) \<and>
   fst (projr (realloc_impl env_ok ptr_allocated 0 ''bob'' heap_allocated)) = NULL \<and>
   \<not> is_free 0x7F0000000000
       (snd (projr (realloc_impl env_ok ptr_allocated 0 ''bob'' heap_allocated))) \<and>
   free_head (snd (projr (realloc_impl env_ok ptr_allocated 0 ''bob'' heap_allocated))) = NULL \<and>
   is_free 0x7F0000000000 (free_impl ptr_allocated heap_allocated) \<and>
   free_head (free_impl ptr_allocated heap_allocated) = 0x7F0000000000 \<and>
   \<not> isl (realloc_impl env_libc_fails ptr_allocated 0 ''bob'' heap_allocated) \<and>
   fst (projr (realloc_impl env_libc_fails ptr_allocated 0 ''bob'' heap_allocated)) =
     0x7F0000100040"
  by (simp add: run_defs)

text \<open>
  C10, as stated, fails. For the pointer that \<open>malloc_impl(300, "bob")\<close> has
  returned and the size 100, with the C library's \<open>malloc\<close> succeeding,
  \<open>realloc_impl\<close> copies the bytes and then passes the pointer, which lies in a
  mapping of the allocator, to the C library's \<open>free\<close> (line 457): the call ends
  in an \<open>Invalid_free\<close> and leaves no state.
\<close>

theorem realloc_impl_foreign_free_counterexample:
  "\<not> isl (malloc_impl env_ok 300 ''bob'' heap_init) \<and>
   ptr_allocated = 0x7F0000000040 \<and>
   mappings heap_allocated = [(0x7F0000000000, 4096)] \<and>
   libc_objects heap_allocated = [] \<and>
   realloc_impl env_ok ptr_allocated 100 ''bob'' heap_allocated = Inl Invalid_free"
  by (simp add: run_defs)

text \<open>
  C10, amended: for every non-null pointer \<open>ptr\<close> and every size \<open>sz\<close> other than 0,
  \<open>realloc_impl\<close> returns when the C library's \<open>malloc\<close> succeeds and \<open>ptr\<close> is a live
  block of the C library of at least \<open>sz\<close> bytes (such as \<open>realloc_impl\<close> itself
  returns), and when the C library's \<open>malloc\<close> fails, the label has fewer than 32
  characters and the scribble is off or ends inside the mapped pages. Whenever it
  returns, it has left \<open>blist_head\<close>, \<open>blist_tail\<close>, \<open>free_head\<close> and \<open>free_tail\<close> as
  they were, and with them every block header: all of them when the C library's
  \<open>malloc\<close> succeeded, and all of them outside the pages newly mapped when it
  failed and \<open>malloc_impl\<close> took over.
\<close>

theorem realloc_impl_keeps_lists:
  assumes "ptr \<noteq> NULL" and "sz \<noteq> 0"
  shows "(libc_malloc_ret e \<noteq> NULL \<and> lives ptr sz s \<longrightarrow>
            \<not> isl (realloc_impl e ptr sz nm s)) \<and>
   (libc_malloc_ret e = NULL \<and> length (c_str nm) < 32 \<and> scribble_fits e sz \<longrightarrow>
            \<not> isl (realloc_impl e ptr sz nm s)) \<and>
   (\<not> isl (realloc_impl e ptr sz nm s) \<longrightarrow>
      blist_head (snd (projr (realloc_impl e ptr sz nm s))) = blist_head s \<and>
      blist_tail (snd (projr (realloc_impl e ptr sz nm s))) = blist_tail s \<and>
      free_head (snd (projr (realloc_impl e ptr sz nm s))) = free_head s \<and>
      free_tail (snd (projr (realloc_impl e ptr sz nm s))) = free_tail s \<and>
      (libc_malloc_ret e \<noteq> NULL \<longrightarrow> mem (snd (projr (realloc_impl e ptr sz nm s))) = mem s) \<and>
      (\<forall>b. \<not> b - mmap_ret e < align (sz + sizeof_mem_block) PAGE_SIZE \<longrightarrow>
           mem (snd (projr (realloc_impl e ptr sz nm s))) b = mem s b))"
proof (intro conjI impI)
  assume "libc_malloc_ret e \<noteq> NULL \<and> lives ptr sz s"
  then show "\<not> isl (realloc_impl e ptr sz nm s)"
    using realloc_impl_library_returns [of e ptr sz s nm] assms(1) by blast
next
  assume a: "libc_malloc_ret e = NULL \<and> length (c_str nm) < 32 \<and> scribble_fits e sz"
  then have "realloc_impl e ptr sz nm s =
      malloc_impl e sz nm (s\<lparr>events := events s @ [Libc_malloc sz]\<rparr>)"
    by (simp add: realloc_impl_def libc_malloc_def Let_def)
  then show "\<not> isl (realloc_impl e ptr sz nm s)"
    using a by (simp add: malloc_impl_returns)
next
  assume "\<not> isl (realloc_impl e ptr sz nm s)"
  then have r: "realloc_impl e ptr sz nm s =
      Inr (fst (projr (realloc_impl e ptr sz nm s)), snd (projr (realloc_impl e ptr sz nm s)))"
    by (cases "realloc_impl e ptr sz nm s") auto
  note f = realloc_impl_frame [OF assms r]
  from f show "blist_head (snd (projr (realloc_impl e ptr sz nm s))) = blist_head s" by simp
  from f show "blist_tail (snd (projr (realloc_impl e ptr sz nm s))) = blist_tail s" by simp
  from f show "free_head (snd (projr (realloc_impl e ptr sz nm s))) = free_head s" by simp
  from f show "free_tail (snd (projr (realloc_impl e ptr sz nm s))) = free_tail s" by simp
  from f show "mem (snd (projr (realloc_impl e ptr sz nm s))) = mem s"
    if "libc_malloc_ret e \<noteq> NULL" using that by simp
  from f show "\<forall>b. \<not> b - mmap_ret e < align (sz + sizeof_mem_block) PAGE_SIZE \<longrightarrow>
      mem (snd (projr (realloc_impl e ptr sz nm s))) b = mem s b" by simp
qed

theorem realloc_impl_keeps_lists_witness:
  "\<not> isl (realloc_impl env_ok NULL 100 ''new'' heap_allocated) \<and>
   ptr_library = 0x555500000010 \<and> ptr_library \<noteq> NULL \<and> (50 :: size_t) \<noteq> 0 \<and>
   libc_malloc_ret env_second \<noteq> NULL \<and> lives ptr_library 50 heap_library \<and>
   \<not> isl (realloc_impl env_second ptr_library 50 ''bob'' heap_library) \<and>
   blist_head (snd (projr (realloc_impl env_second ptr_library 50 ''bob'' heap_library))) =
     blist_head heap_library \<and>
   blist_tail (snd (projr (realloc_impl env_second ptr_library 50 ''bob'' heap_library))) =
     blist_tail heap_library \<and>
   free_head (snd (projr (realloc_impl env_second ptr_library 50 ''bob'' heap_library))) =
     free_head heap_library \<and>
   free_tail (snd (projr (realloc_impl env_second ptr_library 50 ''bob'' heap_library))) =
     free_tail heap_library \<and>
   mem (snd (projr (realloc_impl env_second ptr_library 50 ''bob'' heap_library))) =
     mem heap_library \<and>
   ptr_allocated \<noteq> NULL \<and> (100 :: size_t) \<noteq> 0 \<and>
   libc_malloc_ret env_libc_fails = NULL \<and> length (c_str ''bob'') < 32 \<and>
   scribble_fits env_libc_fails 100 \<and>
   \<not> isl (realloc_impl env_libc_fails ptr_allocated 100 ''bob'' heap_allocated) \<and>
   free_head (snd (projr (realloc_impl env_libc_fails ptr_allocated 100 ''bob'' heap_allocated))) =
     free_head heap_allocated \<and>
   mem (snd (projr (realloc_impl env_libc_fails ptr_allocated 100 ''bob'' heap_allocated)))
     0x7F0000000000 = mem heap_allocated 0x7F0000000000"
proof -
  have g: "\<not> isl (realloc_impl env_ok NULL 100 ''new'' heap_allocated)"
    "ptr_library = 0x555500000010"
    by (simp_all add: run_defs)
  have h: "ptr_library \<noteq> NULL" "(50 :: size_t) \<noteq> 0"
    by (simp_all add: g)
  have l: "libc_malloc_ret env_second \<noteq> NULL \<and> lives ptr_library 50 heap_library"
    by (simp add: run_defs)
  have k: "ptr_allocated \<noteq> NULL" "(100 :: size_t) \<noteq> 0"
    by (simp_all add: run_defs)
  have m: "libc_malloc_ret env_libc_fails = NULL \<and> length (c_str ''bob'') < 32 \<and>
      scribble_fits env_libc_fails 100"
    by (simp add: env_libc_fails_def c_str_def scribble_fits_def)
  have o: "\<not> (0x7F0000000000 :: addr) - mmap_ret env_libc_fails
             < align (100 + sizeof_mem_block) PAGE_SIZE"
    by (simp add: env_libc_fails_def align_def)
  note a = realloc_impl_keeps_lists [OF h, of env_second heap_library "''bob''"]
  note b = realloc_impl_keeps_lists [OF k, of env_libc_fails heap_allocated "''bob''"]
  from a l have a1: "\<not> isl (realloc_impl env_second ptr_library 50 ''bob'' heap_library)"
    by blast
  from b m have b1: "\<not> isl (realloc_impl env_libc_fails ptr_allocated 100 ''bob'' heap_allocated)"
    by blast
  from a a1 l b b1 o g h k m show ?thesis
    by simp
qed

section \<open>Leak check\<close>

text \<open>
  C9 holds of the documented \<open>leak_check\<close> (``true if there are memory leaks, false
  otherwise''), not of its body, which returns \<open>true\<close>. After
  \<open>malloc_impl(300, "bob")\<close> and \<open>free_impl\<close> of the returned pointer the one block
  is free, and \<open>leak_check\<close> still reports a leak; it does so on the initial state
  too, where there is no block at all.
\<close>

theorem leak_check_always_true:
  "\<not> isl (malloc_impl env_ok 300 ''bob'' heap_init) \<and>
   \<not> is_free 0x7F0000000000 heap_allocated \<and> is_free 0x7F0000000000 heap_released \<and>
   leak_check heap_released \<and> leak_check heap_init"
  by (simp add: run_defs)

end
